theory Spec2Isabelle
  imports Main "HOL-Library.Sublist"
begin

section \<open>Strings of the Go runtime\<close>

text \<open>
  A Go \<^verbatim>\<open>string\<close> is a sequence of bytes, and so is a HOL \<^typ>\<open>string\<close>: \<^verbatim>\<open>len\<close> is
  \<^const>\<open>length\<close> and a slice \<^verbatim>\<open>s[i:j]\<close> is made of \<^const>\<open>take\<close> and \<^const>\<open>drop\<close>.
  The functions of package \<^verbatim>\<open>strings\<close> that the source calls are written out below.
\<close>

definition HasPrefix :: "string \<Rightarrow> string \<Rightarrow> bool" where
  "HasPrefix s p = prefix p s"

definition TrimPrefix :: "string \<Rightarrow> string \<Rightarrow> string" where
  "TrimPrefix s p = (if HasPrefix s p then drop (length p) s else s)"

subsection \<open>UTF-8 decoding\<close>

text \<open>
  \<^verbatim>\<open>strings.Split(s, "")\<close> and \<^verbatim>\<open>strings.TrimSpace\<close> read a string as UTF-8: they cut it
  into encoded code points, not into bytes. \<^verbatim>\<open>utf8.DecodeRuneInString\<close> returns the code
  point at the front of the string and the number of bytes it takes; a byte that starts no
  well-formed encoding is the code point \<^verbatim>\<open>RuneError\<close> of width 1. The table \<^verbatim>\<open>first\<close> of
  package \<^verbatim>\<open>utf8\<close> gives, for a leading byte, the length of the encoding and the range
  accepted for the second byte; \<open>None\<close> stands for its entries \<^verbatim>\<open>as\<close> (ASCII) and
  \<^verbatim>\<open>xx\<close> (invalid), both of width 1.
\<close>

definition byte :: "char \<Rightarrow> nat" where
  "byte c = of_char c"

definition RuneError :: nat where
  "RuneError = 0xFFFD"

definition first :: "nat \<Rightarrow> (nat \<times> nat \<times> nat) option" where
  "first b =
     (if b < 0xC2 then None
      else if b \<le> 0xDF then Some (2, 0x80, 0xBF)
      else if b = 0xE0 then Some (3, 0xA0, 0xBF)
      else if b \<le> 0xEC then Some (3, 0x80, 0xBF)
      else if b = 0xED then Some (3, 0x80, 0x9F)
      else if b \<le> 0xEF then Some (3, 0x80, 0xBF)
      else if b = 0xF0 then Some (4, 0x90, 0xBF)
      else if b \<le> 0xF3 then Some (4, 0x80, 0xBF)
      else if b = 0xF4 then Some (4, 0x80, 0x8F)
      else None)"

definition DecodeRuneInString :: "string \<Rightarrow> nat \<times> nat" where
  "DecodeRuneInString s =
     (let n = length s in
      if n < 1 then (RuneError, 0)
      else
        let s0 = byte (s ! 0) in
        case first s0 of
          None \<Rightarrow> (if s0 < 0x80 then s0 else RuneError, 1)
        | Some (sz, lo, hi) \<Rightarrow>
            if n < sz then (RuneError, 1)
            else
              let s1 = byte (s ! 1) in
              if s1 < lo \<or> hi < s1 then (RuneError, 1)
              else if sz \<le> 2 then ((s0 mod 32) * 64 + s1 mod 64, 2)
              else
                let s2 = byte (s ! 2) in
                if s2 < 0x80 \<or> 0xBF < s2 then (RuneError, 1)
                else if sz \<le> 3 then ((s0 mod 16) * 4096 + (s1 mod 64) * 64 + s2 mod 64, 3)
                else
                  let s3 = byte (s ! 3) in
                  if s3 < 0x80 \<or> 0xBF < s3 then (RuneError, 1)
                  else ((s0 mod 8) * 262144 + (s1 mod 64) * 4096 + (s2 mod 64) * 64
                          + s3 mod 64, 4))"

text \<open>
  \<^verbatim>\<open>utf8.DecodeLastRuneInString\<close> looks back from the end, over at most \<^verbatim>\<open>UTFMax = 4\<close>
  bytes, for a byte that can start an encoding, and decodes from there; the loop over
  the three positions before the last byte is unrolled.
\<close>

definition RuneStart :: "nat \<Rightarrow> bool" where
  "RuneStart b = (b div 64 \<noteq> 2)"

definition DecodeLastRuneInString :: "string \<Rightarrow> nat \<times> nat" where
  "DecodeLastRuneInString s =
     (let end = int (length s) in
      if end = 0 then (RuneError, 0)
      else if byte (s ! nat (end - 1)) < 0x80 then (byte (s ! nat (end - 1)), 1)
      else
        let lim = max 0 (end - 4);
            start =
              (case find (\<lambda>i. RuneStart (byte (s ! nat i)))
                      (filter (\<lambda>i. lim \<le> i) [end - 2, end - 3, end - 4]) of
                 Some i \<Rightarrow> i
               | None \<Rightarrow> lim - 1);
            start = (if start < 0 then 0 else start);
            (r, size) = DecodeRuneInString (drop (nat start) s)
        in if start + int size \<noteq> end then (RuneError, 1) else (r, size))"

text \<open>
  \<^verbatim>\<open>strings.Split(s, "")\<close> is \<^verbatim>\<open>explode(s, -1)\<close>: one string for each encoded code point
  of \<^verbatim>\<open>s\<close>, in order. (Older releases of Go store the encoding of \<^verbatim>\<open>RuneError\<close> in place
  of an ill-formed byte; the number of parts is the same.)
\<close>

fun explode :: "string \<Rightarrow> string list" where
  "explode [] = []"
| "explode (c # cs) =
     (let size = snd (DecodeRuneInString (c # cs))
      in (c # take (size - 1) cs) # explode (drop (size - 1) cs))"

subsection \<open>White space\<close>

text \<open>
  \<^verbatim>\<open>unicode.IsSpace\<close>: the code points with the Unicode property White_Space.
  \<^verbatim>\<open>strings.TrimSpace\<close> removes the leading and then the trailing code points that
  satisfy it.
\<close>

definition IsSpace :: "nat \<Rightarrow> bool" where
  "IsSpace r =
     ((0x09 \<le> r \<and> r \<le> 0x0D) \<or> r = 0x20 \<or> r = 0x85 \<or> r = 0xA0 \<or> r = 0x1680
      \<or> (0x2000 \<le> r \<and> r \<le> 0x200A) \<or> r = 0x2028 \<or> r = 0x2029 \<or> r = 0x202F
      \<or> r = 0x205F \<or> r = 0x3000)"

fun TrimLeftSpace :: "string \<Rightarrow> string" where
  "TrimLeftSpace [] = []"
| "TrimLeftSpace (c # cs) =
     (let (r, size) = DecodeRuneInString (c # cs)
      in if IsSpace r then TrimLeftSpace (drop (size - 1) cs) else c # cs)"

function TrimRightSpace :: "string \<Rightarrow> string" where
  "TrimRightSpace s =
     (if s = [] then []
      else
        let (r, size) = DecodeLastRuneInString s
        in if IsSpace r \<and> 0 < size then TrimRightSpace (take (length s - size) s) else s)"
  by pat_completeness auto
termination
  by (relation "measure length") auto

definition TrimSpace :: "string \<Rightarrow> string" where
  "TrimSpace s = TrimRightSpace (TrimLeftSpace s)"

section \<open>Computed styles\<close>

subsection \<open>The browser\<close>

text \<open>
  The style declaration of an element is the browser's object. The package calls three of
  its methods, and the model is a record of what they return:
  \<^item> \<^verbatim>\<open>css.Call("getPropertyValue", prop)\<close>, a \<^verbatim>\<open>*js.Object\<close>, \<open>None\<close> when it is \<^verbatim>\<open>nil\<close>;
  \<^item> \<^verbatim>\<open>css.Call("getPropertyPriority", prop)\<close>, \<open>None\<close> when it is \<^verbatim>\<open>nil\<close> and otherwise
    the string that \<^verbatim>\<open>vs.String()\<close> reads from it;
  \<^item> \<^verbatim>\<open>css.ToMap()\<close>, as the list of its entries in the order in which the \<^verbatim>\<open>range\<close>
    loop of \<^verbatim>\<open>GetComputedStyleMap\<close> visits them (Go leaves the order of a map open).
  \<^verbatim>\<open>Window().GetComputedStyle(elem, ps)\<close> is a function \<open>window\<close> from the element and
  the pseudo selector to the declaration, \<open>None\<close> when it is \<^verbatim>\<open>nil\<close>.
\<close>

datatype error = ErrNotFound

record 'o CSSStyleDeclaration =
  getPropertyValue :: "string \<Rightarrow> 'o option"
  getPropertyPriority :: "string \<Rightarrow> string option"
  ToMap :: "(string \<times> string) list"

definition GetComputedStyle ::
  "('e \<Rightarrow> string \<Rightarrow> 'o CSSStyleDeclaration option) \<Rightarrow> 'e \<Rightarrow> string
     \<Rightarrow> error + 'o CSSStyleDeclaration" where
  "GetComputedStyle window elem ps =
     (case window elem ps of
        None \<Rightarrow> Inl ErrNotFound
      | Some css \<Rightarrow> Inr css)"

definition GetComputedStyleValueWith :: "'o CSSStyleDeclaration \<Rightarrow> string \<Rightarrow> error + 'o" where
  "GetComputedStyleValueWith css prop =
     (case getPropertyValue css prop of
        None \<Rightarrow> Inl ErrNotFound
      | Some vs \<Rightarrow> Inr vs)"

definition GetComputedStyleValue ::
  "('e \<Rightarrow> string \<Rightarrow> 'o CSSStyleDeclaration option) \<Rightarrow> 'e \<Rightarrow> string \<Rightarrow> string
     \<Rightarrow> error + 'o" where
  "GetComputedStyleValue window elem psudo prop =
     (case GetComputedStyle window elem psudo of
        Inl err \<Rightarrow> Inl err
      | Inr vs \<Rightarrow>
          (case GetComputedStyleValueWith vs prop of
             Inl err \<Rightarrow> Inl err
           | Inr vcs \<Rightarrow> Inr vcs))"

text \<open>
  \<^verbatim>\<open>GetComputedStylePriority\<close> returns an \<^verbatim>\<open>int\<close> together with its error, and its caller
  reads the \<^verbatim>\<open>int\<close> whatever the error is: the model returns the pair.
\<close>

definition GetComputedStylePriority ::
  "'o CSSStyleDeclaration \<Rightarrow> string \<Rightarrow> int \<times> error option" where
  "GetComputedStylePriority css prop =
     (case getPropertyPriority css prop of
        None \<Rightarrow> (0, Some ErrNotFound)
      | Some vs \<Rightarrow> if TrimSpace vs = '''' then (0, None) else (1, None))"

subsection \<open>Vendor tags\<close>

definition vendorTags :: "string list" where
  "vendorTags = [''moz'', ''webki'', ''O'', ''ms'']"

definition Vendorize :: "string \<Rightarrow> string list" where
  "Vendorize u = map (\<lambda>vn. ''-'' @ vn @ ''-'' @ u) vendorTags"

text \<open>
  The inner loop of \<^verbatim>\<open>GetComputedStyleMap\<close>, over the tags \<^verbatim>\<open>vo\<close>: the name loses the
  prefix \<^verbatim>\<open>vo\<close> and then the prefix \<^verbatim>\<open>-vo-\<close>, when it has them, and goes on to the next tag.
\<close>

fun unvendor :: "string list \<Rightarrow> string \<Rightarrow> string" where
  "unvendor [] unvendoredName = unvendoredName"
| "unvendor (vo # tags) unvendoredName =
     unvendor tags (TrimPrefix (TrimPrefix unvendoredName vo) (''-'' @ vo @ ''-''))"

subsection \<open>The style map\<close>

text \<open>
  A \<^verbatim>\<open>ComputedStyleMap\<close> maps a name to a pointer to a \<^verbatim>\<open>ComputedStyle\<close>. Every entry that
  the package stores is a record allocated for that entry, so the model maps the name to the
  record itself, and a write through the pointer is an update of the map at that name. The
  map is one that \<^verbatim>\<open>make\<close> has allocated, as in \<^verbatim>\<open>GetComputedStyleMap\<close>; the empty map is
  \<^verbatim>\<open>make(ComputedStyleMap)\<close>.
\<close>

record ComputedStyle =
  Name :: string
  VendorName :: string
  Value :: string
  Values :: "string list"
  Priority :: bool

type_synonym ComputedStyleMap = "string \<rightharpoonup> ComputedStyle"

text \<open>
  The body of the loop of \<^verbatim>\<open>GetComputedStyleMap\<close> over the entries \<^verbatim>\<open>key, val\<close>, and
  the function.
\<close>

fun styleMapLoop ::
  "'o CSSStyleDeclaration \<Rightarrow> (string \<times> string) list \<Rightarrow> ComputedStyleMap \<Rightarrow> ComputedStyleMap" where
  "styleMapLoop css [] styleMap = styleMap"
| "styleMapLoop css ((key, val) # entries) styleMap =
     (let priority = fst (GetComputedStylePriority css key);
          unvendoredName = unvendor vendorTags key;
          vals = (if TrimSpace val \<noteq> ''none'' then [val] else [])
      in styleMapLoop css entries
           (styleMap(unvendoredName \<mapsto>
              \<lparr>Name = unvendoredName, VendorName = key, Value = val, Values = vals,
               Priority = (priority > 0)\<rparr>)))"

definition GetComputedStyleMap ::
  "('e \<Rightarrow> string \<Rightarrow> 'o CSSStyleDeclaration option) \<Rightarrow> 'e \<Rightarrow> string
     \<Rightarrow> error + ComputedStyleMap" where
  "GetComputedStyleMap window elem ps =
     (case GetComputedStyle window elem ps of
        Inl err \<Rightarrow> Inl err
      | Inr css \<Rightarrow> Inr (styleMapLoop css (ToMap css) Map.empty))"

definition Has :: "ComputedStyleMap \<Rightarrow> string \<Rightarrow> bool" where
  "Has c name = (case c name of None \<Rightarrow> False | Some cs \<Rightarrow> True)"

definition Get :: "ComputedStyleMap \<Rightarrow> string \<Rightarrow> error + ComputedStyle" where
  "Get c name =
     (case c name of
        None \<Rightarrow> Inl ErrNotFound
      | Some cs \<Rightarrow> Inr cs)"

definition Add :: "ComputedStyleMap \<Rightarrow> string \<Rightarrow> string \<Rightarrow> bool \<Rightarrow> ComputedStyleMap" where
  "Add c name value priority =
     (if \<not> Has c name then
        c(name \<mapsto> \<lparr>Name = name, VendorName = name, Value = value, Values = [value],
                    Priority = priority\<rparr>)
      else
        let m = the (c name)
        in c(name \<mapsto> m\<lparr>Value := value, Priority := priority, Values := [value]\<rparr>))"

subsection \<open>Values of a property\<close>

text \<open>
  \<^verbatim>\<open>propName\<close> is the regular expression \<^verbatim>\<open>([\w\-0-9]+)\(?\)?\<close>. Its class holds the ASCII
  letters and digits, the underscore and the hyphen. The leftmost match starts at the first
  byte of the class, and the greedy \<^verbatim>\<open>+\<close> takes the whole run of such bytes, which is group
  1. \<^verbatim>\<open>FindStringSubmatch\<close> returns \<^verbatim>\<open>nil\<close> when the string has no byte of the class, and
  the index \<^verbatim>\<open>[1]\<close> on it panics.
\<close>

datatype panic = IndexOutOfRange

definition propNameClass :: "char \<Rightarrow> bool" where
  "propNameClass c =
     (c \<in> set ''abcdefghijklmnopqrstuvwxyzABCDEFGHIJKLMNOPQRSTUVWXYZ0123456789_-'')"

definition propNameSubmatch1 :: "string \<Rightarrow> panic + string" where
  "propNameSubmatch1 s =
     (let rest = dropWhile (\<lambda>c. \<not> propNameClass c) s
      in if rest = [] then Inl IndexOutOfRange else Inr (takeWhile propNameClass rest))"

text \<open>
  The loop of \<^verbatim>\<open>AddMore\<close> over \<^verbatim>\<open>ind, val := range m.Values\<close>: \<open>vals\<close> are the entries
  still to visit, \<open>values\<close> is \<^verbatim>\<open>m.Values\<close> as written so far.
\<close>

fun addMoreLoop ::
  "string \<Rightarrow> string \<Rightarrow> nat \<Rightarrow> string list \<Rightarrow> string list \<times> bool
     \<Rightarrow> panic + string list \<times> bool" where
  "addMoreLoop prop value ind [] (values, found) = Inr (values, found)"
| "addMoreLoop prop value ind (val # vals) (values, found) =
     (case propNameSubmatch1 val of
        Inl p \<Rightarrow> Inl p
      | Inr valName \<Rightarrow>
          if valName \<noteq> prop then addMoreLoop prop value (Suc ind) vals (values, found)
          else addMoreLoop prop value (Suc ind) vals (values[ind := value], True))"

definition AddMore ::
  "ComputedStyleMap \<Rightarrow> string \<Rightarrow> string \<Rightarrow> bool \<Rightarrow> panic + ComputedStyleMap" where
  "AddMore c name value priority =
     (if \<not> Has c name then
        Inr (c(name \<mapsto> \<lparr>Name = name, VendorName = name, Value = value, Values = [value],
                         Priority = priority\<rparr>))
      else
        let m = the (c name) in
        if length (Values m) = 1 \<and> Values m ! 0 = ''none'' then
          Inr (c(name \<mapsto> m\<lparr>Values := (Values m)[0 := value]\<rparr>))
        else
          case propNameSubmatch1 value of
            Inl p \<Rightarrow> Inl p
          | Inr prop \<Rightarrow>
              (case addMoreLoop prop value 0 (Values m) (Values m, False) of
                 Inl p \<Rightarrow> Inl p
               | Inr (values, found) \<Rightarrow>
                   if \<not> found then Inr (c(name \<mapsto> m\<lparr>Values := values @ [value]\<rparr>))
                   else Inr (c(name \<mapsto> m\<lparr>Values := values\<rparr>))))"

section \<open>Colours\<close>

text \<open>
  Modelled from the spec: \<^verbatim>\<open>parseIntBase16\<close> is called by \<^verbatim>\<open>ToRGB\<close> and \<^verbatim>\<open>RGBA\<close> and is not
  among the sources. The spec calls it base-16 parsing of hexadecimal digits: the model
  reads the digits \<^verbatim>\<open>0-9\<close>, \<^verbatim>\<open>a-f\<close> and \<^verbatim>\<open>A-F\<close>, most significant first. What it returns
  for any other string is not said; the model returns 0 there, and no result below rests on
  that value.
\<close>

definition hexDigit :: "char \<Rightarrow> nat option" where
  "hexDigit c =
     (let b = byte c in
      if 48 \<le> b \<and> b \<le> 57 then Some (b - 48)
      else if 97 \<le> b \<and> b \<le> 102 then Some (b - 87)
      else if 65 \<le> b \<and> b \<le> 70 then Some (b - 55)
      else None)"

fun parseHex :: "nat \<Rightarrow> string \<Rightarrow> nat option" where
  "parseHex acc [] = Some acc"
| "parseHex acc (c # cs) =
     (case hexDigit c of
        None \<Rightarrow> None
      | Some d \<Rightarrow> parseHex (16 * acc + d) cs)"

definition parseIntBase16 :: "string \<Rightarrow> int" where
  "parseIntBase16 fx =
     (if fx = [] then 0
      else case parseHex 0 fx of None \<Rightarrow> 0 | Some n \<Rightarrow> int n)"

definition doubleString :: "string \<Rightarrow> string" where
  "doubleString c = c @ c"

text \<open>
  An index or a slice out of range is a run-time panic of Go.
\<close>

definition index :: "'a list \<Rightarrow> nat \<Rightarrow> panic + 'a" where
  "index xs i = (if i < length xs then Inr (xs ! i) else Inl IndexOutOfRange)"

definition slice :: "string \<Rightarrow> nat \<Rightarrow> nat \<Rightarrow> panic + string" where
  "slice s lo hi =
     (if lo \<le> hi \<and> hi \<le> length s then Inr (take (hi - lo) (drop lo s))
      else Inl IndexOutOfRange)"

text \<open>
  \<^verbatim>\<open>ToRGB\<close> of \<^verbatim>\<open>src/unnamed/part_000\<close>.
\<close>

definition ToRGB :: "string \<Rightarrow> panic + int \<times> int \<times> int" where
  "ToRGB hex0 =
     (let hex = (if HasPrefix hex0 ''#'' then TrimPrefix hex0 ''#'' else hex0) in
      if length hex < 6 then
        (let parts = explode hex in
         (case index parts 0 of Inl p \<Rightarrow> Inl p | Inr p0 \<Rightarrow>
           (let red = parseIntBase16 (doubleString p0) in
            (case index parts 1 of Inl p \<Rightarrow> Inl p | Inr p1 \<Rightarrow>
              (let green = parseIntBase16 (doubleString p1) in
               (case index parts 2 of Inl p \<Rightarrow> Inl p | Inr p2 \<Rightarrow>
                 (let blue = parseIntBase16 (doubleString p2) in
                  Inr (red, green, blue))))))))
      else
        (case slice hex 0 2 of Inl p \<Rightarrow> Inl p | Inr h0 \<Rightarrow>
          (let red = parseIntBase16 h0 in
           (case slice hex 2 4 of Inl p \<Rightarrow> Inl p | Inr h1 \<Rightarrow>
             (let green = parseIntBase16 h1 in
              (case slice hex 4 6 of Inl p \<Rightarrow> Inl p | Inr h2 \<Rightarrow>
                (let blue = parseIntBase16 h2 in
                 Inr (red, green, blue))))))))"

text \<open>
  \<^verbatim>\<open>fmt.Sprintf\<close> with the verb \<^verbatim>\<open>%d\<close> writes an \<^verbatim>\<open>int\<close> in decimal, with a minus sign when
  it is negative.
\<close>

fun decimal :: "nat \<Rightarrow> string" where
  "decimal n =
     (if n < 10 then [''0123456789'' ! n]
      else decimal (n div 10) @ [''0123456789'' ! (n mod 10)])"

definition verb_d :: "int \<Rightarrow> string" where
  "verb_d i = (if i < 0 then ''-'' @ decimal (nat (- i)) else decimal (nat i))"

text \<open>
  \<^verbatim>\<open>float64(alpha)/100\<close> is the double nearest to the quotient of \<^verbatim>\<open>alpha\<close> by 100, and
  \<^verbatim>\<open>%.2f\<close> writes the decimal with two places nearest to that double. The package is
  compiled by GopherJS, where \<^verbatim>\<open>int\<close> has 32 bits: the double is then less than a millionth
  away from the quotient, which has two decimal places itself, so what is written is the
  quotient: a minus sign when \<^verbatim>\<open>alpha\<close> is negative, the integer part of \<open>\<bar>alpha\<bar> / 100\<close>,
  a point, and the two digits of \<open>\<bar>alpha\<bar> mod 100\<close>. The model is this decimal, for
  \<^verbatim>\<open>alpha\<close> in the range of a 32-bit \<^verbatim>\<open>int\<close>.
\<close>

definition isInt32 :: "int \<Rightarrow> bool" where
  "isInt32 i = (- (2 ^ 31) \<le> i \<and> i < 2 ^ 31)"

definition verb_f2_hundredths :: "int \<Rightarrow> string" where
  "verb_f2_hundredths alpha =
     (let a = nat \<bar>alpha\<bar>
      in (if alpha < 0 then ''-'' else '''') @ decimal (a div 100) @ ''.''
           @ [''0123456789'' ! (a mod 100 div 10), ''0123456789'' ! (a mod 10)])"

definition Sprintf_rgba :: "int \<Rightarrow> int \<Rightarrow> int \<Rightarrow> int \<Rightarrow> string" where
  "Sprintf_rgba r g b alpha =
     ''rgba('' @ verb_d r @ '','' @ verb_d g @ '','' @ verb_d b @ '',''
       @ verb_f2_hundredths alpha @ '')''"

text \<open>
  \<^verbatim>\<open>RGBA\<close> of \<^verbatim>\<open>src/unnamed/part_000\<close>, which calls \<^verbatim>\<open>ToRGB\<close>.
\<close>

definition RGBA :: "string \<Rightarrow> int \<Rightarrow> panic + string" where
  "RGBA hex alpha =
     (case ToRGB hex of
        Inl p \<Rightarrow> Inl p
      | Inr (r, g, b) \<Rightarrow> Inr (Sprintf_rgba r g b alpha))"

text \<open>
  \<^verbatim>\<open>RGBA\<close> of \<^verbatim>\<open>src/css.go\<close>, which does the conversion itself. It is a function of package
  \<^verbatim>\<open>vfx\<close>, whose \<^verbatim>\<open>parseIntBase16\<close> is taken to be the one above.
\<close>

definition css_RGBA :: "string \<Rightarrow> int \<Rightarrow> panic + string" where
  "css_RGBA hex0 alpha =
     (let hex = (if HasPrefix hex0 ''#'' then TrimPrefix hex0 ''#'' else hex0) in
      if length hex < 6 then
        (let parts = explode hex in
         (case index parts 0 of Inl p \<Rightarrow> Inl p | Inr p0 \<Rightarrow>
           (let r = parseIntBase16 (doubleString p0) in
            (case index parts 1 of Inl p \<Rightarrow> Inl p | Inr p1 \<Rightarrow>
              (let g = parseIntBase16 (doubleString p1) in
               (case index parts 2 of Inl p \<Rightarrow> Inl p | Inr p2 \<Rightarrow>
                 (let b = parseIntBase16 (doubleString p2) in
                  Inr (Sprintf_rgba r g b alpha))))))))
      else
        (case slice hex 0 2 of Inl p \<Rightarrow> Inl p | Inr h0 \<Rightarrow>
          (let r = parseIntBase16 h0 in
           (case slice hex 2 4 of Inl p \<Rightarrow> Inl p | Inr h1 \<Rightarrow>
             (let g = parseIntBase16 h1 in
              (case slice hex 4 6 of Inl p \<Rightarrow> Inl p | Inr h2 \<Rightarrow>
                (let b = parseIntBase16 h2 in
                 Inr (Sprintf_rgba r g b alpha))))))))"

section \<open>Units\<close>

text \<open>
  \<^verbatim>\<open>Unit\<close>: the \<^verbatim>\<open>switch\<close> returns \<^verbatim>\<open>u\<close> in five cases and \<^verbatim>\<open>"px"\<close> by default.
\<close>

definition Unit :: "string \<Rightarrow> string" where
  "Unit u =
     (if u = ''rem'' then u
      else if u = ''em'' then u
      else if u = ''px'' then u
      else if u = ''%'' then u
      else if u = ''vw'' then u
      else ''px'')"

section \<open>Notions of the specification\<close>

text \<open>
  The five units that \<^verbatim>\<open>Unit\<close> lets through.
\<close>

definition standardUnits :: "string set" where
  "standardUnits = {''rem'', ''em'', ''px'', ''%'', ''vw''}"

text \<open>
  A name carries a vendor prefix when it starts with one of the vendor tags, bare or
  between hyphens: these are the prefixes that the clean-up of \<^verbatim>\<open>GetComputedStyleMap\<close>
  trims.
\<close>

definition carriesVendorPrefix :: "string \<Rightarrow> bool" where
  "carriesVendorPrefix name =
     list_ex (\<lambda>vo. HasPrefix name vo \<or> HasPrefix name (''-'' @ vo @ ''-'')) vendorTags"

text \<open>
  A valid colour is made of three or of six hexadecimal digits. The value of a digit, and
  its red, green and blue components (\<open>i\<close> is 0, 1, 2): a digit of the short form stands
  for itself twice.
\<close>

definition validHex :: "string \<Rightarrow> bool" where
  "validHex h = ((length h = 3 \<or> length h = 6) \<and> list_all (\<lambda>c. hexDigit c \<noteq> None) h)"

definition hexValue :: "char \<Rightarrow> int" where
  "hexValue c = (case hexDigit c of None \<Rightarrow> 0 | Some d \<Rightarrow> int d)"

definition component :: "string \<Rightarrow> nat \<Rightarrow> int" where
  "component h i =
     (if length h = 3 then 16 * hexValue (h ! i) + hexValue (h ! i)
      else 16 * hexValue (h ! (2 * i)) + hexValue (h ! (2 * i + 1)))"

text \<open>
  The colour once \<^verbatim>\<open>ToRGB\<close> has removed a leading \<^verbatim>\<open>#\<close>, and the strings of ASCII
  characters.
\<close>

definition afterHash :: "string \<Rightarrow> string" where
  "afterHash hex = (if HasPrefix hex ''#'' then TrimPrefix hex ''#'' else hex)"

definition isASCII :: "string \<Rightarrow> bool" where
  "isASCII s = list_all (\<lambda>c. byte c < 0x80) s"

text \<open>
  A property is marked \<^verbatim>\<open>!important\<close> in a declaration when \<^verbatim>\<open>getPropertyPriority\<close> yields
  a priority string that is not empty once its white space is trimmed.
\<close>

definition important :: "'o CSSStyleDeclaration \<Rightarrow> string \<Rightarrow> bool" where
  "important css key =
     (case getPropertyPriority css key of
        None \<Rightarrow> False
      | Some vs \<Rightarrow> TrimSpace vs \<noteq> '''')"

text \<open>
  Merge or append: the entries that have the name \<open>prop\<close> become \<open>value\<close>; when there is
  none, \<open>value\<close> goes to the end.
\<close>

definition mergeOrAppend :: "string \<Rightarrow> string \<Rightarrow> string list \<Rightarrow> string list" where
  "mergeOrAppend prop value values =
     (if list_ex (\<lambda>val. propNameSubmatch1 val = Inr prop) values
      then map (\<lambda>val. if propNameSubmatch1 val = Inr prop then value else val) values
      else values @ [value])"

section \<open>Properties\<close>

subsection \<open>Unit\<close>

text \<open>
  C10. \<^verbatim>\<open>Unit\<close> returns its argument when it is one of "rem", "em", "px", "%", "vw" and
  "px" for every other string; so its result is always one of the five, and applying
  \<^verbatim>\<open>Unit\<close> twice is the same as applying it once.
\<close>

theorem Unit_standard_or_px:
  "(u \<in> standardUnits \<longrightarrow> Unit u = u) \<and>
   (u \<notin> standardUnits \<longrightarrow> Unit u = ''px'') \<and>
   Unit u \<in> standardUnits \<and>
   Unit (Unit u) = Unit u"
  by (simp add: Unit_def standardUnits_def)

theorem Unit_standard_or_px_witness:
  "''em'' \<in> standardUnits \<and> Unit ''em'' = ''em'' \<and>
   ''pt'' \<notin> standardUnits \<and> Unit ''pt'' = ''px'' \<and>
   Unit (Unit ''pt'') = Unit ''pt''"
proof -
  have a: "''em'' \<in> standardUnits" and b: "''pt'' \<notin> standardUnits"
    by (simp_all add: standardUnits_def)
  from a b Unit_standard_or_px [of "''em''"] Unit_standard_or_px [of "''pt''"]
  show ?thesis by blast
qed

subsection \<open>White space\<close>

lemma DecodeRuneInString_ascii:
  "byte c < 0x80 \<Longrightarrow> DecodeRuneInString (c # cs) = (byte c, 1)"
  by (simp add: DecodeRuneInString_def first_def)

lemma TrimLeftSpace_unchanged:
  "byte c < 0x80 \<Longrightarrow> \<not> IsSpace (byte c) \<Longrightarrow> TrimLeftSpace (c # cs) = c # cs"
  by (simp add: DecodeRuneInString_ascii)

lemma DecodeLastRuneInString_ascii:
  "s \<noteq> [] \<Longrightarrow> byte (last s) < 0x80 \<Longrightarrow> DecodeLastRuneInString s = (byte (last s), 1)"
  by (simp add: DecodeLastRuneInString_def Let_def last_conv_nth nat_diff_distrib')

lemma TrimRightSpace_unchanged:
  "s \<noteq> [] \<Longrightarrow> byte (last s) < 0x80 \<Longrightarrow> \<not> IsSpace (byte (last s)) \<Longrightarrow> TrimRightSpace s = s"
  by (subst TrimRightSpace.simps) (simp add: DecodeLastRuneInString_ascii)

lemma TrimSpace_unchanged:
  assumes "byte c < 0x80" "\<not> IsSpace (byte c)"
    and "byte (last (c # cs)) < 0x80" "\<not> IsSpace (byte (last (c # cs)))"
  shows "TrimSpace (c # cs) = c # cs"
proof -
  have "TrimLeftSpace (c # cs) = c # cs"
    using assms(1,2) by (rule TrimLeftSpace_unchanged)
  moreover have "TrimRightSpace (c # cs) = c # cs"
    using assms(3,4) by (intro TrimRightSpace_unchanged) simp_all
  ultimately show ?thesis by (simp only: TrimSpace_def)
qed

lemma TrimSpace_empty: "TrimSpace [] = []"
  by (simp add: TrimSpace_def)

lemma TrimSpace_scale: "TrimSpace ''scale(2)'' = ''scale(2)''"
  by (rule TrimSpace_unchanged) (simp_all add: byte_def IsSpace_def)

subsection \<open>The style map\<close>

text \<open>
  C4. Whatever the name, the value and the priority flag, \<^verbatim>\<open>Add\<close> on the empty map
  followed by \<^verbatim>\<open>Get\<close> of the same name succeeds, and the record it returns has the value
  and the priority that were supplied.
\<close>

theorem Add_empty_then_Get:
  "\<exists>cs. Get (Add Map.empty name value priority) name = Inr cs
         \<and> Value cs = value \<and> Priority cs = priority"
  by (simp add: Get_def Add_def Has_def)

text \<open>
  C5. A look-up that finds nothing returns the error \<^verbatim>\<open>ErrNotFound\<close> and no value, and
  only then: \<^verbatim>\<open>Get\<close> when the map has no entry for the name, \<^verbatim>\<open>GetComputedStyle\<close> when
  the window gives no declaration, \<^verbatim>\<open>GetComputedStyleValueWith\<close> when the declaration
  gives no value. In every other case the result is exactly what the look-up found.
\<close>

theorem ErrNotFound_exactly_when_nothing_found:
  "(Get c name = Inl ErrNotFound) = (c name = None) \<and>
   (\<forall>cs. (Get c name = Inr cs) = (c name = Some cs)) \<and>
   (GetComputedStyle window elem ps = Inl ErrNotFound) = (window elem ps = None) \<and>
   (\<forall>css. (GetComputedStyle window elem ps = Inr css) = (window elem ps = Some css)) \<and>
   (GetComputedStyleValueWith css prop = Inl ErrNotFound) = (getPropertyValue css prop = None) \<and>
   (\<forall>vs. (GetComputedStyleValueWith css prop = Inr vs) = (getPropertyValue css prop = Some vs))"
  by (simp add: Get_def GetComputedStyle_def GetComputedStyleValueWith_def split: option.split)

subsection \<open>Vendor prefixes\<close>

lemma TrimPrefix_without_prefix: "\<not> HasPrefix s p \<Longrightarrow> TrimPrefix s p = s"
  by (simp add: TrimPrefix_def)

lemma unvendor_unchanged:
  "\<forall>vo \<in> set tags. \<not> HasPrefix name vo \<and> \<not> HasPrefix name (''-'' @ vo @ ''-'')
     \<Longrightarrow> unvendor tags name = name"
  by (induction tags) (simp_all add: TrimPrefix_without_prefix)

text \<open>
  C2. The clean-up of vendor names leaves a name that carries no vendor prefix as it is.
\<close>

theorem unvendor_without_prefix:
  "\<not> carriesVendorPrefix name \<Longrightarrow> unvendor vendorTags name = name"
  by (rule unvendor_unchanged) (simp add: carriesVendorPrefix_def list_ex_iff)

theorem unvendor_without_prefix_witness:
  "\<not> carriesVendorPrefix ''transform'' \<and> unvendor vendorTags ''transform'' = ''transform''"
proof -
  have no_prefix: "\<not> carriesVendorPrefix ''transform''"
    by (simp add: carriesVendorPrefix_def vendorTags_def HasPrefix_def)
  from no_prefix unvendor_without_prefix [OF no_prefix] show ?thesis by (rule conjI)
qed

text \<open>
  C3. The claim is that a key \<^verbatim>\<open>-V-name\<close>, for a vendor prefix \<^verbatim>\<open>V\<close> such as \<^verbatim>\<open>moz\<close> or
  \<^verbatim>\<open>webkit\<close>, is stored under \<^verbatim>\<open>name\<close>. The tag in \<^verbatim>\<open>vendorTags\<close> is \<^verbatim>\<open>webki\<close>: a
  computed style whose only entry is \<^verbatim>\<open>-webkit-transform\<close> gives a map with that entry
  under \<^verbatim>\<open>-webkit-transform\<close> and nothing under \<^verbatim>\<open>transform\<close>, where the key
  \<^verbatim>\<open>-moz-transform\<close> is cleaned to \<^verbatim>\<open>transform\<close>.
\<close>

theorem webkit_key_stays_vendored:
  "(case GetComputedStyleMap
           (\<lambda>elem ps. Some \<lparr>getPropertyValue = (\<lambda>prop. Some prop),
                              getPropertyPriority = (\<lambda>prop. Some ''''),
                              ToMap = [(''-webkit-transform'', ''scale(2)'')]\<rparr>)
           () '''' of
      Inl err \<Rightarrow> False
    | Inr styleMap \<Rightarrow>
        styleMap ''transform'' = None \<and>
        styleMap ''-webkit-transform'' =
          Some \<lparr>Name = ''-webkit-transform'', VendorName = ''-webkit-transform'',
                Value = ''scale(2)'', Values = [''scale(2)''], Priority = False\<rparr>) \<and>
   unvendor vendorTags ''-moz-transform'' = ''transform'' \<and>
   Vendorize ''transform'' =
     [''-moz-transform'', ''-webki-transform'', ''-O-transform'', ''-ms-transform'']"
proof -
  have "unvendor vendorTags ''-webkit-transform'' = ''-webkit-transform''"
    by (simp add: vendorTags_def TrimPrefix_def HasPrefix_def)
  moreover have "unvendor vendorTags ''-moz-transform'' = ''transform''"
    by (simp add: vendorTags_def TrimPrefix_def HasPrefix_def)
  moreover have "Vendorize ''transform'' =
     [''-moz-transform'', ''-webki-transform'', ''-O-transform'', ''-ms-transform'']"
    by (simp add: Vendorize_def vendorTags_def)
  ultimately show ?thesis
    by (simp add: GetComputedStyleMap_def GetComputedStyle_def GetComputedStylePriority_def
          TrimSpace_empty TrimSpace_scale Let_def)
qed

subsection \<open>Values of a property\<close>

lemma addMoreLoop_result:
  assumes "\<forall>val \<in> set vals. propNameSubmatch1 val \<noteq> Inl IndexOutOfRange"
  shows "addMoreLoop prop value (length seen) vals (seen @ vals, found) =
           Inr (seen @ map (\<lambda>val. if propNameSubmatch1 val = Inr prop then value else val) vals,
                found \<or> list_ex (\<lambda>val. propNameSubmatch1 val = Inr prop) vals)"
  using assms
proof (induction vals arbitrary: seen found)
  case Nil
  then show ?case by simp
next
  case (Cons val vals)
  from Cons.prems obtain valName where valName: "propNameSubmatch1 val = Inr valName"
    by (cases "propNameSubmatch1 val") (auto intro: panic.exhaust)
  from Cons.prems have rest: "\<forall>val \<in> set vals. propNameSubmatch1 val \<noteq> Inl IndexOutOfRange"
    by simp
  show ?case
  proof (cases "valName = prop")
    case True
    have "addMoreLoop prop value (length seen) (val # vals) (seen @ val # vals, found) =
            addMoreLoop prop value (length (seen @ [value])) vals ((seen @ [value]) @ vals, True)"
      using valName True by simp
    also have "\<dots> = Inr ((seen @ [value]) @
                  map (\<lambda>val. if propNameSubmatch1 val = Inr prop then value else val) vals,
                True \<or> list_ex (\<lambda>val. propNameSubmatch1 val = Inr prop) vals)"
      using rest by (rule Cons.IH)
    finally show ?thesis
      using valName True by simp
  next
    case False
    have "addMoreLoop prop value (length seen) (val # vals) (seen @ val # vals, found) =
            addMoreLoop prop value (length (seen @ [val])) vals ((seen @ [val]) @ vals, found)"
      using valName False by simp
    also have "\<dots> = Inr ((seen @ [val]) @
                  map (\<lambda>val. if propNameSubmatch1 val = Inr prop then value else val) vals,
                found \<or> list_ex (\<lambda>val. propNameSubmatch1 val = Inr prop) vals)"
      using rest by (rule Cons.IH)
    finally show ?thesis
      using valName False by simp
  qed
qed

lemma addMoreLoop_Values:
  assumes "\<forall>val \<in> set values. propNameSubmatch1 val \<noteq> Inl IndexOutOfRange"
  shows "addMoreLoop prop value 0 values (values, False) =
           Inr (map (\<lambda>val. if propNameSubmatch1 val = Inr prop then value else val) values,
                list_ex (\<lambda>val. propNameSubmatch1 val = Inr prop) values)"
  using addMoreLoop_result [OF assms, of "prop" "value" "[]" False] by simp

lemma none_only:
  "(length values = Suc 0 \<and> values ! 0 = ''none'') = (values = [''none''])"
  by (cases "values") auto

lemma map_without_name:
  "\<not> list_ex (\<lambda>val. propNameSubmatch1 val = Inr prop) values
     \<Longrightarrow> map (\<lambda>val. if propNameSubmatch1 val = Inr prop then value else val) values = values"
  by (induction "values") simp_all

lemma propName_scale:
  "propNameSubmatch1 ''scale(2)'' = Inr ''scale''"
  "propNameSubmatch1 ''scale(3)'' = Inr ''scale''"
  by (simp_all add: propNameSubmatch1_def propNameClass_def)

lemma propName_rotate: "propNameSubmatch1 ''rotate(3deg)'' = Inr ''rotate''"
  by (simp add: propNameSubmatch1_def propNameClass_def)

lemma propName_empty: "propNameSubmatch1 [] = Inl IndexOutOfRange"
  by (simp add: propNameSubmatch1_def)

text \<open>
  C6. The claim is that \<^verbatim>\<open>AddMore\<close> creates a record with \<^verbatim>\<open>Values = [value]\<close> for a name
  that the map does not have, overwrites a \<^verbatim>\<open>Values\<close> equal to \<^verbatim>\<open>["none"]\<close>, replaces
  the entry that has the leading name of \<^verbatim>\<open>value\<close>, and appends \<^verbatim>\<open>value\<close> otherwise.
  The name is group 1 of a match of \<^verbatim>\<open>propName\<close>, and \<^verbatim>\<open>AddMore\<close> indexes the result of
  \<^verbatim>\<open>FindStringSubmatch\<close> without a test: where the value, or an entry of \<^verbatim>\<open>Values\<close>, has no
  byte of the class, there is nothing to index and \<^verbatim>\<open>AddMore\<close> panics instead of appending.

  What holds: the first two cases as claimed; and when \<^verbatim>\<open>propName\<close> finds a name in
  \<^verbatim>\<open>value\<close> and in every entry of \<^verbatim>\<open>Values\<close>, every entry with the name of \<^verbatim>\<open>value\<close> is
  replaced in place by \<^verbatim>\<open>value\<close>, and \<^verbatim>\<open>value\<close> is appended when there is none.
\<close>

theorem AddMore_merge_or_append:
  "(c name = None \<longrightarrow>
      AddMore c name value priority =
        Inr (c(name \<mapsto> \<lparr>Name = name, VendorName = name, Value = value, Values = [value],
                         Priority = priority\<rparr>))) \<and>
   (c name = Some m \<and> Values m = [''none''] \<longrightarrow>
      AddMore c name value priority = Inr (c(name \<mapsto> m\<lparr>Values := [value]\<rparr>))) \<and>
   (c name = Some m \<and> Values m \<noteq> [''none''] \<and> propNameSubmatch1 value = Inr prop \<and>
    (\<forall>val \<in> set (Values m). propNameSubmatch1 val \<noteq> Inl IndexOutOfRange) \<longrightarrow>
      AddMore c name value priority =
        Inr (c(name \<mapsto> m\<lparr>Values := mergeOrAppend prop value (Values m)\<rparr>)))"
proof (intro conjI impI)
  assume "c name = None"
  then show "AddMore c name value priority =
        Inr (c(name \<mapsto> \<lparr>Name = name, VendorName = name, Value = value, Values = [value],
                         Priority = priority\<rparr>))"
    by (simp add: AddMore_def Has_def)
next
  assume "c name = Some m \<and> Values m = [''none'']"
  then show "AddMore c name value priority = Inr (c(name \<mapsto> m\<lparr>Values := [value]\<rparr>))"
    by (simp add: AddMore_def Has_def)
next
  assume a: "c name = Some m \<and> Values m \<noteq> [''none''] \<and> propNameSubmatch1 value = Inr prop \<and>
    (\<forall>val \<in> set (Values m). propNameSubmatch1 val \<noteq> Inl IndexOutOfRange)"
  then have loop: "addMoreLoop prop value 0 (Values m) (Values m, False) =
           Inr (map (\<lambda>val. if propNameSubmatch1 val = Inr prop then value else val) (Values m),
                list_ex (\<lambda>val. propNameSubmatch1 val = Inr prop) (Values m))"
    by (intro addMoreLoop_Values) simp
  from a loop show "AddMore c name value priority =
        Inr (c(name \<mapsto> m\<lparr>Values := mergeOrAppend prop value (Values m)\<rparr>))"
    by (simp add: AddMore_def Has_def mergeOrAppend_def none_only map_without_name)
qed

theorem AddMore_merge_or_append_witness:
  "AddMore Map.empty ''transform'' ''scale(2)'' False =
     Inr [''transform'' \<mapsto> \<lparr>Name = ''transform'', VendorName = ''transform'',
            Value = ''scale(2)'', Values = [''scale(2)''], Priority = False\<rparr>] \<and>
   AddMore [''transform'' \<mapsto> \<lparr>Name = ''transform'', VendorName = ''transform'',
              Value = ''none'', Values = [''none''], Priority = False\<rparr>]
       ''transform'' ''scale(3)'' True =
     Inr [''transform'' \<mapsto> \<lparr>Name = ''transform'', VendorName = ''transform'',
            Value = ''none'', Values = [''scale(3)''], Priority = False\<rparr>] \<and>
   AddMore [''transform'' \<mapsto> \<lparr>Name = ''transform'', VendorName = ''transform'',
              Value = ''scale(2)'', Values = [''scale(2)''], Priority = False\<rparr>]
       ''transform'' ''rotate(3deg)'' True =
     Inr [''transform'' \<mapsto> \<lparr>Name = ''transform'', VendorName = ''transform'',
            Value = ''scale(2)'', Values = [''scale(2)'', ''rotate(3deg)''], Priority = False\<rparr>] \<and>
   AddMore [''transform'' \<mapsto> \<lparr>Name = ''transform'', VendorName = ''transform'',
              Value = ''scale(2)'', Values = [''scale(2)''], Priority = False\<rparr>]
       ''transform'' ''scale(3)'' True =
     Inr [''transform'' \<mapsto> \<lparr>Name = ''transform'', VendorName = ''transform'',
            Value = ''scale(2)'', Values = [''scale(3)''], Priority = False\<rparr>]"
proof -
  let ?none = "\<lparr>Name = ''transform'', VendorName = ''transform'',
              Value = ''none'', Values = [''none''], Priority = False\<rparr>"
  let ?scale = "\<lparr>Name = ''transform'', VendorName = ''transform'',
              Value = ''scale(2)'', Values = [''scale(2)''], Priority = False\<rparr>"
  have absent: "AddMore Map.empty ''transform'' ''scale(2)'' False = Inr [''transform'' \<mapsto> ?scale]"
    using AddMore_merge_or_append [of Map.empty "''transform''" "''scale(2)''" False]
    by simp
  have none: "AddMore [''transform'' \<mapsto> ?none] ''transform'' ''scale(3)'' True =
      Inr [''transform'' \<mapsto> ?none\<lparr>Values := [''scale(3)'']\<rparr>]"
    using AddMore_merge_or_append
      [of "[''transform'' \<mapsto> ?none]" "''transform''" "''scale(3)''" True ?none]
    by simp
  have append: "AddMore [''transform'' \<mapsto> ?scale] ''transform'' ''rotate(3deg)'' True =
      Inr [''transform'' \<mapsto> ?scale\<lparr>Values := [''scale(2)'', ''rotate(3deg)'']\<rparr>]"
    using AddMore_merge_or_append
      [of "[''transform'' \<mapsto> ?scale]" "''transform''" "''rotate(3deg)''" True ?scale "''rotate''"]
    by (simp add: propName_scale propName_rotate mergeOrAppend_def)
  have merge: "AddMore [''transform'' \<mapsto> ?scale] ''transform'' ''scale(3)'' True =
      Inr [''transform'' \<mapsto> ?scale\<lparr>Values := [''scale(3)'']\<rparr>]"
    using AddMore_merge_or_append
      [of "[''transform'' \<mapsto> ?scale]" "''transform''" "''scale(3)''" True ?scale "''scale''"]
    by (simp add: propName_scale mergeOrAppend_def)
  from absent none append merge show ?thesis by simp
qed

text \<open>
  A value without a name on a record that has \<^verbatim>\<open>scale(2)\<close>: no entry has its name, and
  \<^verbatim>\<open>AddMore\<close> panics where the claim appends. An entry without a name: \<^verbatim>\<open>AddMore\<close> of the
  empty value on the empty map stores \<^verbatim>\<open>Values = [""]\<close>, and \<^verbatim>\<open>AddMore\<close> of \<^verbatim>\<open>scale(2)\<close>
  on that map panics.
\<close>

theorem AddMore_panics_without_name:
  "AddMore [''transform'' \<mapsto> \<lparr>Name = ''transform'', VendorName = ''transform'',
              Value = ''scale(2)'', Values = [''scale(2)''], Priority = False\<rparr>]
       ''transform'' '''' True = Inl IndexOutOfRange \<and>
   AddMore Map.empty ''transform'' '''' False =
     Inr [''transform'' \<mapsto> \<lparr>Name = ''transform'', VendorName = ''transform'',
            Value = '''', Values = [''''], Priority = False\<rparr>] \<and>
   AddMore [''transform'' \<mapsto> \<lparr>Name = ''transform'', VendorName = ''transform'',
              Value = '''', Values = [''''], Priority = False\<rparr>]
       ''transform'' ''scale(2)'' False = Inl IndexOutOfRange"
  by (simp add: AddMore_def Has_def propName_empty propName_scale)

subsection \<open>Priorities\<close>

lemma GetComputedStylePriority_important:
  "(0 < fst (GetComputedStylePriority css key)) = important css key"
  by (simp add: GetComputedStylePriority_def important_def split: option.split)

lemma GetComputedStylePriority_range:
  "fst (GetComputedStylePriority css prop) = 0 \<or> fst (GetComputedStylePriority css prop) = 1"
  by (simp add: GetComputedStylePriority_def split: option.split)

lemma styleMapLoop_records:
  assumes "styleMapLoop css entries styleMap name = Some cs"
  shows "styleMap name = Some cs \<or>
         (VendorName cs \<in> fst ` set entries \<and> Priority cs = important css (VendorName cs))"
  using assms
proof (induction entries arbitrary: styleMap)
  case Nil
  then show ?case by simp
next
  case (Cons entry entries)
  obtain key val where entry: "entry = (key, val)" by (cases entry)
  let ?cs = "\<lparr>Name = unvendor vendorTags key, VendorName = key, Value = val,
              Values = (if TrimSpace val \<noteq> ''none'' then [val] else []),
              Priority = (0 < fst (GetComputedStylePriority css key))\<rparr>"
  let ?styleMap = "styleMap(unvendor vendorTags key \<mapsto> ?cs)"
  from Cons.prems entry have "styleMapLoop css entries ?styleMap name = Some cs"
    by (simp add: Let_def)
  then have "?styleMap name = Some cs \<or>
      (VendorName cs \<in> fst ` set entries \<and> Priority cs = important css (VendorName cs))"
    by (rule Cons.IH)
  then show ?case
  proof
    assume stored: "?styleMap name = Some cs"
    show ?thesis
    proof (cases "name = unvendor vendorTags key")
      case True
      with stored have "cs = ?cs" by simp
      then have "VendorName cs = key" and "Priority cs = important css key"
        by (simp_all add: GetComputedStylePriority_important)
      with entry show ?thesis by simp
    next
      case False
      with stored show ?thesis by simp
    qed
  next
    assume "VendorName cs \<in> fst ` set entries \<and> Priority cs = important css (VendorName cs)"
    then show ?thesis by auto
  qed
qed

text \<open>
  C7. The \<^verbatim>\<open>Priority\<close> of every record in the map that \<^verbatim>\<open>GetComputedStyleMap\<close> returns
  tells whether the key it was made from (kept in \<^verbatim>\<open>VendorName\<close>) is marked
  \<^verbatim>\<open>!important\<close> in the declaration; and the \<^verbatim>\<open>int\<close> that \<^verbatim>\<open>GetComputedStylePriority\<close>
  returns is 0 or 1.
\<close>

theorem Priority_reflects_important:
  assumes "GetComputedStyleMap window elem ps = Inr styleMap" and "styleMap name = Some cs"
  shows "(\<exists>css. window elem ps = Some css \<and> VendorName cs \<in> fst ` set (ToMap css) \<and>
            Priority cs = important css (VendorName cs)) \<and>
         (fst (GetComputedStylePriority css' prop) = 0 \<or>
          fst (GetComputedStylePriority css' prop) = 1)"
proof -
  from assms(1) obtain css where css: "window elem ps = Some css"
    and styleMap: "styleMap = styleMapLoop css (ToMap css) Map.empty"
    by (auto simp add: GetComputedStyleMap_def GetComputedStyle_def split: option.splits)
  from assms(2) styleMap have "styleMapLoop css (ToMap css) Map.empty name = Some cs"
    by simp
  then have "Map.empty name = Some cs \<or>
      (VendorName cs \<in> fst ` set (ToMap css) \<and> Priority cs = important css (VendorName cs))"
    by (rule styleMapLoop_records)
  with css have "\<exists>css. window elem ps = Some css \<and> VendorName cs \<in> fst ` set (ToMap css) \<and>
            Priority cs = important css (VendorName cs)"
    by simp
  then show ?thesis
    using GetComputedStylePriority_range by (rule conjI)
qed

lemma TrimSpace_important: "TrimSpace ''important'' = ''important''"
  by (rule TrimSpace_unchanged) (simp_all add: byte_def IsSpace_def)

lemma TrimSpace_red: "TrimSpace ''red'' = ''red''"
  by (rule TrimSpace_unchanged) (simp_all add: byte_def IsSpace_def)

theorem Priority_reflects_important_witness:
  "GetComputedStyleMap
     (\<lambda>elem ps. Some \<lparr>getPropertyValue = (\<lambda>prop. Some prop),
                        getPropertyPriority = (\<lambda>prop. Some ''important''),
                        ToMap = [(''color'', ''red'')]\<rparr>) () '''' =
     Inr [''color'' \<mapsto> \<lparr>Name = ''color'', VendorName = ''color'', Value = ''red'',
                           Values = [''red''], Priority = True\<rparr>] \<and>
   important \<lparr>getPropertyValue = (\<lambda>prop. Some prop),
              getPropertyPriority = (\<lambda>prop. Some ''important''),
              ToMap = [(''color'', ''red'')]\<rparr> ''color'' \<and>
   (fst (GetComputedStylePriority
           \<lparr>getPropertyValue = (\<lambda>prop. Some prop),
            getPropertyPriority = (\<lambda>prop. Some ''important''),
            ToMap = [(''color'', ''red'')]\<rparr> ''color'') = 0 \<or>
    fst (GetComputedStylePriority
           \<lparr>getPropertyValue = (\<lambda>prop. Some prop),
            getPropertyPriority = (\<lambda>prop. Some ''important''),
            ToMap = [(''color'', ''red'')]\<rparr> ''color'') = 1)"
proof -
  let ?css = "\<lparr>getPropertyValue = (\<lambda>prop. Some prop),
               getPropertyPriority = (\<lambda>prop. Some ''important''),
               ToMap = [(''color'', ''red'')]\<rparr>"
  let ?cs = "\<lparr>Name = ''color'', VendorName = ''color'', Value = ''red'',
              Values = [''red''], Priority = True\<rparr>"
  have name: "unvendor vendorTags ''color'' = ''color''"
    by (simp add: vendorTags_def TrimPrefix_def HasPrefix_def)
  have built: "GetComputedStyleMap (\<lambda>elem ps. Some ?css) () '''' = Inr [''color'' \<mapsto> ?cs]"
    by (simp add: GetComputedStyleMap_def GetComputedStyle_def GetComputedStylePriority_def
          TrimSpace_important TrimSpace_red name Let_def)
  have stored: "[''color'' \<mapsto> ?cs] ''color'' = Some ?cs"
    by simp
  from Priority_reflects_important [OF built stored, of ?css "''color''"] built
  show ?thesis by simp
qed

subsection \<open>Colours\<close>

lemma explode_ascii: "isASCII s \<Longrightarrow> explode s = map (\<lambda>c. [c]) s"
  by (induction s) (simp_all add: isASCII_def DecodeRuneInString_ascii)

lemma explode_length_le: "length (explode s) \<le> length s"
proof (induction s rule: explode.induct)
  case 1
  then show ?case by simp
next
  case (2 c cs)
  then show ?case by (simp add: Let_def le_SucI le_diff_conv)
qed

lemma hexDigit_ascii: "hexDigit c \<noteq> None \<Longrightarrow> byte c < 0x80"
  by (simp add: hexDigit_def Let_def split: if_splits)

lemma hexDigit_hash: "hexDigit CHR ''#'' = None"
  by (simp add: hexDigit_def byte_def)

lemma parseIntBase16_pair:
  "hexDigit a \<noteq> None \<Longrightarrow> hexDigit b \<noteq> None
     \<Longrightarrow> parseIntBase16 [a, b] = 16 * hexValue a + hexValue b"
  by (auto simp add: parseIntBase16_def hexValue_def)

lemma ToRGB_three:
  assumes "hexDigit a \<noteq> None" "hexDigit b \<noteq> None" "hexDigit c \<noteq> None"
  shows "ToRGB [a, b, c] =
           Inr (16 * hexValue a + hexValue a, 16 * hexValue b + hexValue b,
                16 * hexValue c + hexValue c)"
proof -
  have "isASCII [a, b, c]"
    using assms by (simp add: isASCII_def hexDigit_ascii)
  then have "explode [a, b, c] = map (\<lambda>c. [c]) [a, b, c]"
    by (rule explode_ascii)
  moreover have "\<not> HasPrefix [a, b, c] ''#''"
    using assms(1) by (auto simp add: HasPrefix_def hexDigit_hash)
  ultimately show ?thesis
    using assms
    by (simp add: ToRGB_def index_def doubleString_def parseIntBase16_pair del: explode.simps)
qed

lemma ToRGB_six:
  assumes "list_all (\<lambda>c. hexDigit c \<noteq> None) [a, b, c, d, e, f]"
  shows "ToRGB [a, b, c, d, e, f] =
           Inr (16 * hexValue a + hexValue b, 16 * hexValue c + hexValue d,
                16 * hexValue e + hexValue f)"
proof -
  have "\<not> HasPrefix [a, b, c, d, e, f] ''#''"
    using assms by (auto simp add: HasPrefix_def hexDigit_hash)
  then show ?thesis
    using assms by (simp add: ToRGB_def slice_def parseIntBase16_pair)
qed

lemma validHex_cases:
  assumes "validHex h"
  obtains a b c where "h = [a, b, c]"
  | a b c d e f where "h = [a, b, c, d, e, f]"
proof -
  from assms have "length h = 3 \<or> length h = 6" by (simp add: validHex_def)
  then show thesis
  proof
    assume "length h = 3"
    then obtain a b c where "h = [a, b, c]"
      by (auto simp add: length_Suc_conv numeral_3_eq_3)
    then show thesis by (rule that(1))
  next
    assume "length h = 6"
    then have "length h = Suc (Suc (Suc (Suc (Suc (Suc 0)))))" by simp
    then obtain a b c d e f where "h = [a, b, c, d, e, f]"
      by (auto simp add: length_Suc_conv)
    then show thesis by (rule that(2))
  qed
qed

lemma ToRGB_valid:
  assumes "validHex h"
  shows "ToRGB h = Inr (component h 0, component h 1, component h 2)"
  using assms
proof (cases h rule: validHex_cases)
  case (1 a b c)
  with assms show ?thesis by (simp add: validHex_def ToRGB_three component_def)
next
  case (2 a b c d e f)
  with assms show ?thesis by (simp add: validHex_def ToRGB_six component_def)
qed

lemma validHex_no_hash: "validHex h \<Longrightarrow> \<not> HasPrefix h ''#''"
  by (cases h) (auto simp add: validHex_def HasPrefix_def hexDigit_hash)

lemma ToRGB_hash: "\<not> HasPrefix h ''#'' \<Longrightarrow> ToRGB (CHR ''#'' # h) = ToRGB h"
  by (simp add: ToRGB_def HasPrefix_def TrimPrefix_def)

text \<open>
  C1. For a valid colour \<open>h\<close> of three or six hexadecimal digits, written with or without a
  leading \<^verbatim>\<open>#\<close>, \<^verbatim>\<open>RGBA\<close> returns \<^verbatim>\<open>rgba(r,g,b,a)\<close>, where \<open>r\<close>, \<open>g\<close>, \<open>b\<close> are the
  red, green and blue components of \<open>h\<close> in decimal and \<open>a\<close> is \<open>alpha / 100\<close> with two
  decimal places.
\<close>

theorem RGBA_valid_hex:
  assumes "validHex h" and "hex = h \<or> hex = ''#'' @ h" and "isInt32 alpha"
  shows "RGBA hex alpha =
           Inr (''rgba('' @ verb_d (component h 0) @ '','' @ verb_d (component h 1) @ '',''
                  @ verb_d (component h 2) @ '','' @ verb_f2_hundredths alpha @ '')'')"
proof -
  have "ToRGB hex = ToRGB h"
    using assms(2) validHex_no_hash [OF assms(1)] by (auto simp add: ToRGB_hash)
  then show ?thesis
    by (simp add: RGBA_def ToRGB_valid [OF assms(1)] Sprintf_rgba_def)
qed

lemma fff_components:
  "verb_d (component ''fff'' 0) = ''255''" "verb_d (component ''fff'' 1) = ''255''"
  "verb_d (component ''fff'' 2) = ''255''" "verb_f2_hundredths 50 = ''0.50''"
  by code_simp+

lemma x1a2B3c_components:
  "verb_d (component ''1a2B3c'' 0) = ''26''" "verb_d (component ''1a2B3c'' 1) = ''43''"
  "verb_d (component ''1a2B3c'' 2) = ''60''" "verb_f2_hundredths 100 = ''1.00''"
  by code_simp+

theorem RGBA_valid_hex_witness:
  "validHex ''fff'' \<and> isInt32 50 \<and> RGBA ''fff'' 50 = Inr ''rgba(255,255,255,0.50)'' \<and>
   validHex ''1a2B3c'' \<and> isInt32 100 \<and> RGBA ''#1a2B3c'' 100 = Inr ''rgba(26,43,60,1.00)''"
proof -
  have valid: "validHex ''fff''" "validHex ''1a2B3c''"
    by (simp_all add: validHex_def hexDigit_def byte_def)
  have range: "isInt32 50" "isInt32 100"
    by (simp_all add: isInt32_def)
  have "RGBA ''fff'' 50 =
          Inr (''rgba('' @ verb_d (component ''fff'' 0) @ '','' @ verb_d (component ''fff'' 1)
                 @ '','' @ verb_d (component ''fff'' 2) @ '','' @ verb_f2_hundredths 50 @ '')'')"
    by (rule RGBA_valid_hex [OF valid(1) _ range(1)]) (rule disjI1, rule refl)
  then have short: "RGBA ''fff'' 50 = Inr ''rgba(255,255,255,0.50)''"
    by (simp only: fff_components) simp
  have "RGBA ''#1a2B3c'' 100 =
          Inr (''rgba('' @ verb_d (component ''1a2B3c'' 0) @ '',''
                 @ verb_d (component ''1a2B3c'' 1) @ '','' @ verb_d (component ''1a2B3c'' 2)
                 @ '','' @ verb_f2_hundredths 100 @ '')'')"
    by (rule RGBA_valid_hex [OF valid(2) _ range(2)]) simp
  then have long: "RGBA ''#1a2B3c'' 100 = Inr ''rgba(26,43,60,1.00)''"
    by (simp only: x1a2B3c_components) simp
  from valid range short long show ?thesis by simp
qed

lemma panic_case_of_case:
  "(case (case x of Inl p \<Rightarrow> Inl p | Inr a \<Rightarrow> f a) of Inl p \<Rightarrow> Inl p | Inr r \<Rightarrow> g r) =
   (case x of Inl p \<Rightarrow> Inl p | Inr a \<Rightarrow> (case f a of Inl p \<Rightarrow> Inl p | Inr r \<Rightarrow> g r))"
  by (cases x) simp_all

lemma panic_case_of_if:
  "(case (if c then x else y) of Inl p \<Rightarrow> Inl p | Inr r \<Rightarrow> g r) =
   (if c then (case x of Inl p \<Rightarrow> Inl p | Inr r \<Rightarrow> g r)
    else (case y of Inl p \<Rightarrow> Inl p | Inr r \<Rightarrow> g r))"
  by simp

text \<open>
  C9. The \<^verbatim>\<open>RGBA\<close> of \<^verbatim>\<open>src/css.go\<close> and the \<^verbatim>\<open>RGBA\<close> of \<^verbatim>\<open>src/unnamed/part_000\<close> return
  the same string, or panic alike, for every colour and every alpha.
\<close>

theorem css_RGBA_eq_RGBA: "css_RGBA hex alpha = RGBA hex alpha"
  unfolding css_RGBA_def RGBA_def ToRGB_def Let_def
  by (simp add: panic_case_of_case panic_case_of_if cong: sum.case_cong if_cong)

lemma ToRGB_panics_iff:
  "(ToRGB hex = Inl IndexOutOfRange) =
     (length (afterHash hex) < 6 \<and> length (explode (afterHash hex)) < 3)"
  by (auto simp add: ToRGB_def afterHash_def Let_def index_def slice_def split: sum.split)

lemma ToRGB_returns_iff:
  "(\<exists>rgb. ToRGB hex = Inr rgb) =
     (6 \<le> length (afterHash hex) \<or> 3 \<le> length (explode (afterHash hex)))"
  by (auto simp add: ToRGB_def afterHash_def Let_def index_def slice_def split: sum.split)

lemma RGBA_panics_iff: "(RGBA hex alpha = Inl p) = (ToRGB hex = Inl p)"
  by (simp add: RGBA_def split: sum.split prod.split)

lemma explode_e_acute_a:
  "explode [CHR 0xC3, CHR 0xA9, CHR ''a''] = [[CHR 0xC3, CHR 0xA9], ''a'']"
  by (simp add: DecodeRuneInString_def first_def byte_def)

lemma explode_two_euros:
  "explode [CHR 0xE2, CHR 0x82, CHR 0xAC, CHR 0xE2, CHR 0x82, CHR 0xAC] =
     [[CHR 0xE2, CHR 0x82, CHR 0xAC], [CHR 0xE2, CHR 0x82, CHR 0xAC]]"
  by (simp add: DecodeRuneInString_def first_def byte_def)

text \<open>
  C8. The claim is that \<^verbatim>\<open>ToRGB\<close> and \<^verbatim>\<open>RGBA\<close> return a value when the colour, after a
  leading \<^verbatim>\<open>#\<close>, has at least three characters, and panic on every shorter one. The
  short form is cut by \<^verbatim>\<open>strings.Split(hex, "")\<close> into encoded code points while its length
  is counted in bytes. As stated the claim fails either way it counts: the three bytes of
  \<^verbatim>\<open>"\xc3\xa9a"\<close> (e acute, then a) are two code points and the index 2 panics; two euro
  signs are two code points in six bytes, and the long form slices them without a panic.

  What holds: \<^verbatim>\<open>ToRGB\<close> returns a value exactly when the colour after a leading \<^verbatim>\<open>#\<close> has
  at least six bytes or at least three encoded code points, and panics with an index out of
  range otherwise; \<^verbatim>\<open>RGBA\<close> panics exactly when \<^verbatim>\<open>ToRGB\<close> does. So every colour of fewer
  than three bytes panics, and every ASCII colour of at least three characters returns.
\<close>

theorem ToRGB_returns_exactly_when:
  "(ToRGB hex = Inl IndexOutOfRange) =
     (length (afterHash hex) < 6 \<and> length (explode (afterHash hex)) < 3) \<and>
   (\<exists>rgb. ToRGB hex = Inr rgb) =
     (6 \<le> length (afterHash hex) \<or> 3 \<le> length (explode (afterHash hex))) \<and>
   (RGBA hex alpha = Inl IndexOutOfRange) = (ToRGB hex = Inl IndexOutOfRange) \<and>
   (length (afterHash hex) < 3 \<longrightarrow> ToRGB hex = Inl IndexOutOfRange) \<and>
   (isASCII (afterHash hex) \<and> 3 \<le> length (afterHash hex) \<longrightarrow> (\<exists>rgb. ToRGB hex = Inr rgb))"
proof (intro conjI impI)
  show "(ToRGB hex = Inl IndexOutOfRange) =
     (length (afterHash hex) < 6 \<and> length (explode (afterHash hex)) < 3)"
    by (rule ToRGB_panics_iff)
  show "(\<exists>rgb. ToRGB hex = Inr rgb) =
     (6 \<le> length (afterHash hex) \<or> 3 \<le> length (explode (afterHash hex)))"
    by (rule ToRGB_returns_iff)
  show "(RGBA hex alpha = Inl IndexOutOfRange) = (ToRGB hex = Inl IndexOutOfRange)"
    by (rule RGBA_panics_iff)
next
  assume short: "length (afterHash hex) < 3"
  have "length (explode (afterHash hex)) \<le> length (afterHash hex)"
    by (rule explode_length_le)
  with short show "ToRGB hex = Inl IndexOutOfRange"
    by (simp add: ToRGB_panics_iff)
next
  assume "isASCII (afterHash hex) \<and> 3 \<le> length (afterHash hex)"
  then have "3 \<le> length (explode (afterHash hex))"
    by (simp add: explode_ascii)
  then show "\<exists>rgb. ToRGB hex = Inr rgb"
    using ToRGB_returns_iff [of hex] by blast
qed

theorem ToRGB_returns_exactly_when_witness:
  "length (afterHash ''#ab'') < 3 \<and> ToRGB ''#ab'' = Inl IndexOutOfRange \<and>
   isASCII (afterHash ''#abc'') \<and> 3 \<le> length (afterHash ''#abc'') \<and> (\<exists>rgb. ToRGB ''#abc'' = Inr rgb)"
proof -
  have a: "afterHash ''#ab'' = ''ab''" and b: "afterHash ''#abc'' = ''abc''"
    by (simp_all add: afterHash_def HasPrefix_def TrimPrefix_def)
  have c: "isASCII ''abc''"
    by (simp add: isASCII_def byte_def)
  have short: "length (afterHash ''#ab'') < 3" and long: "3 \<le> length (afterHash ''#abc'')"
    by (simp_all add: a b)
  from c b have ascii: "isASCII (afterHash ''#abc'')" by simp
  from short long ascii
    ToRGB_returns_exactly_when [of "''#ab''" 0] ToRGB_returns_exactly_when [of "''#abc''" 0]
  show ?thesis by blast
qed

text \<open>
  Three bytes that are two code points, on which \<^verbatim>\<open>ToRGB\<close> and \<^verbatim>\<open>RGBA\<close> panic; and two
  code points that are six bytes, on which \<^verbatim>\<open>ToRGB\<close> does not.
\<close>

theorem ToRGB_three_bytes_panic:
  "length (afterHash [CHR 0xC3, CHR 0xA9, CHR ''a'']) = 3 \<and>
   ToRGB [CHR 0xC3, CHR 0xA9, CHR ''a''] = Inl IndexOutOfRange \<and>
   RGBA [CHR 0xC3, CHR 0xA9, CHR ''a''] 50 = Inl IndexOutOfRange \<and>
   length (explode (afterHash [CHR 0xE2, CHR 0x82, CHR 0xAC, CHR 0xE2, CHR 0x82, CHR 0xAC])) = 2 \<and>
   ToRGB [CHR 0xE2, CHR 0x82, CHR 0xAC, CHR 0xE2, CHR 0x82, CHR 0xAC] \<noteq> Inl IndexOutOfRange"
proof -
  have a: "afterHash [CHR 0xC3, CHR 0xA9, CHR ''a''] = [CHR 0xC3, CHR 0xA9, CHR ''a'']"
    by (simp add: afterHash_def HasPrefix_def)
  have b: "afterHash [CHR 0xE2, CHR 0x82, CHR 0xAC, CHR 0xE2, CHR 0x82, CHR 0xAC] =
      [CHR 0xE2, CHR 0x82, CHR 0xAC, CHR 0xE2, CHR 0x82, CHR 0xAC]"
    by (simp add: afterHash_def HasPrefix_def)
  show ?thesis
    by (simp only: a b ToRGB_panics_iff RGBA_panics_iff explode_e_acute_a explode_two_euros) simp
qed

end
